theory Spec2Isabelle
  imports Complex_Main
begin

section \<open>Type descriptors\<close>

text \<open>
  Modelled from the spec: the declaration of \<^verbatim>\<open>ExpressionType\<close> and the predicates
  \<^verbatim>\<open>expressionIsScalar\<close>, \<^verbatim>\<open>expressionIsAggregate\<close>, \<^verbatim>\<open>expressionIsAnalytic\<close> live in the
  model package, which is not among the sources. The spec gives the classification as
  \<^verbatim>\<open>expressionType: scalar | aggregate | analytic\<close>.
\<close>

datatype expressionType = Scalar | Aggregate | Analytic

definition expressionIsScalar :: "expressionType \<Rightarrow> bool" where
  "expressionIsScalar t = (t = Scalar)"

definition expressionIsAggregate :: "expressionType \<Rightarrow> bool" where
  "expressionIsAggregate t = (t = Aggregate)"

definition expressionIsAnalytic :: "expressionType \<Rightarrow> bool" where
  "expressionIsAnalytic t = (t = Analytic)"

text \<open>\<^verbatim>\<open>TypeDesc\<close>: \<^verbatim>\<open>{dataType, expressionType}\<close>; data types are the source's string tags.\<close>

record typeDesc =
  dataType :: string
  expressionType :: expressionType

section \<open>Parameter space entries\<close>

text \<open>
  \<^verbatim>\<open>HasParameter\<close> (the AST node behind an abstract parameter) exposes an optional
  \<^verbatim>\<open>type\<close>; \<^verbatim>\<open>Parameter\<close> (the model's parameter definition) always carries one.
\<close>

record hasParameter =
  hp_name :: string
  hp_type :: "string option"

record parameter =
  p_name :: string
  p_type :: string

datatype spaceParam = AbstractParameter hasParameter | DefinedParameter parameter

text \<open>
  The method \<^verbatim>\<open>typeDesc()\<close> of the two classes is \<open>spaceParam_typeDesc\<close>.
  JavaScript's \<^verbatim>\<open>a || b\<close> on an optional string: \<^verbatim>\<open>undefined\<close> and the empty string are
  both falsy.
\<close>

definition orElse :: "string option \<Rightarrow> string \<Rightarrow> string" where
  "orElse a b = (case a of None \<Rightarrow> b | Some s \<Rightarrow> if s = [] then b else s)"

fun spaceParam_typeDesc :: "spaceParam \<Rightarrow> typeDesc" where
  "spaceParam_typeDesc (AbstractParameter astParam) =
     (let type = orElse (hp_type astParam) ''unknown''
      in \<lparr>dataType = type, expressionType = Scalar\<rparr>)"
| "spaceParam_typeDesc (DefinedParameter paramDef) =
     \<lparr>dataType = p_type paramDef, expressionType = Scalar\<rparr>"

section \<open>Bare-reference nests: the type check\<close>

datatype error = Error string | InternalError string | DuplicateName string

text \<open>
  \<^verbatim>\<open>NestReference.typecheck\<close>. The experiment flag read by
  \<^verbatim>\<open>this.inExperiment('scalar_lenses', true)\<close> is the argument \<open>scalar_lenses\<close>; the
  result is the list of diagnostics logged, or the error thrown (the template renders
  the descriptor object as \<^verbatim>\<open>[object Object]\<close>). In the analytic branch the two
  message parts are assigned, and the call of \<^verbatim>\<open>this.log\<close> sits inside the other branch.
\<close>

definition nestMessage :: "string \<Rightarrow> string \<Rightarrow> string" where
  "nestMessage kind useInstead =
     ''Cannot use '' @ kind @ '' field in a nest operation, did you mean to use '' @
     useInstead @ '' operation instead?''"

definition typecheck :: "bool \<Rightarrow> typeDesc \<Rightarrow> error + string list" where
  "typecheck scalar_lenses type =
     (if dataType type \<noteq> ''turtle'' then
        (if expressionIsAnalytic (expressionType type) then
           (let useInstead = ''a calculate''; kind = ''an analytic'' in Inr [])
         else if scalar_lenses then Inr []
         else if expressionIsScalar (expressionType type) then
           Inr [nestMessage ''a scalar'' ''a group_by or select'']
         else if expressionIsAggregate (expressionType type) then
           Inr [nestMessage ''an aggregate'' ''an aggregate'']
         else Inl (Error ''Unexpected expression type [object Object] not handled here''))
      else Inr [])"

section \<open>The query model\<close>

text \<open>
  Modelled from the spec: the model types (\<^verbatim>\<open>malloy_types\<close>) are not among the sources.
  A pipeline is an ordered sequence of stages; each stage carries one kind tag, and a
  stage that carries none of the defining kinds is partial (tag \<open>Partial\<close>). The
  members are the ones the sources read and write: a stage's \<^verbatim>\<open>type\<close> and \<^verbatim>\<open>fields\<close>,
  a field definition's \<^verbatim>\<open>type\<close>, \<^verbatim>\<open>name\<close>, \<^verbatim>\<open>as\<close>, \<^verbatim>\<open>expressionType\<close> and \<^verbatim>\<open>e\<close>, a view's
  \<^verbatim>\<open>name\<close>, \<^verbatim>\<open>as\<close>, \<^verbatim>\<open>pipeline\<close>, \<^verbatim>\<open>annotation\<close> and \<^verbatim>\<open>location\<close>. An object tagged
  \<^verbatim>\<open>type: 'turtle'\<close> is a \<open>turtleDef\<close>; the tag is the constructor.
\<close>

datatype segmentType = Reduce | Project | Nest | Index | Raw | Partial

record fragment =
  fr_type :: string
  fr_path :: string

record fieldDef =
  fd_type :: string
  fd_name :: string
  fd_as :: "string option"
  fd_expressionType :: "expressionType option"
  fd_e :: "fragment list option"

datatype annotation = Annotation (a_inherits: "annotation option") (a_notes: "string list")

datatype location = Location (loc_url: string) (loc_line: nat) (loc_character: nat)

datatype queryFieldDef = RefName string | FieldDef fieldDef | Turtle (turtleOf: turtleDef)
and turtleDef =
  TurtleDef (td_name: string) (td_as: "string option") (td_pipeline: "segment list")
    (td_annotation: "annotation option") (td_location: "location option")
and segment = Segment (seg_type: segmentType) (seg_fields: "queryFieldDef list")

text \<open>\<^verbatim>\<open>isTurtle(fd)\<close>: defined, not a string, and tagged \<^verbatim>\<open>'turtle'\<close>.\<close>

fun isTurtle :: "queryFieldDef option \<Rightarrow> bool" where
  "isTurtle (Some (Turtle t)) = True"
| "isTurtle fd = False"

section \<open>Field references and lookups\<close>

text \<open>
  A \<^verbatim>\<open>FieldReference\<close> holds the list of its path segments. Its getter \<^verbatim>\<open>refString\<close> and
  the string it renders to inside a message template belong to a class that is not among
  the sources; their values are carried with the reference.
\<close>

record fieldReference =
  ref_list :: "string list"
  refString :: string
  ref_toString :: string

text \<open>
  The entries a lookup can find, by class. A \<^verbatim>\<open>QueryField\<close> is carried with the result of
  its \<^verbatim>\<open>getQueryFieldDef(fs)\<close> and of its \<^verbatim>\<open>fieldDef()\<close>, a \<^verbatim>\<open>ColumnSpaceField\<close> with the
  result of its \<^verbatim>\<open>fieldDef()\<close>. The class declarations are not among the sources: the
  classes that have a \<^verbatim>\<open>fieldDef()\<close> are taken to be the \<^verbatim>\<open>SpaceField\<close>s, parameter entries
  are not. Of the result of \<^verbatim>\<open>fieldDef()\<close> only \<^verbatim>\<open>type\<close>, \<^verbatim>\<open>name\<close>, \<^verbatim>\<open>as\<close> and
  \<^verbatim>\<open>expressionType\<close> are read.
\<close>

datatype spaceEntry =
    QueryField queryFieldDef "fieldDef option"
  | ColumnSpaceField fieldDef
  | OtherSpaceField "fieldDef option"
  | ParamEntry spaceParam

fun isSpaceField :: "spaceEntry \<Rightarrow> bool" where
  "isSpaceField (ParamEntry p) = False"
| "isSpaceField e = True"

fun entry_fieldDef :: "spaceEntry \<Rightarrow> fieldDef option" where
  "entry_fieldDef (QueryField q d) = d"
| "entry_fieldDef (ColumnSpaceField d) = Some d"
| "entry_fieldDef (OtherSpaceField d) = d"
| "entry_fieldDef (ParamEntry p) = None"

record lookupResult =
  lr_error :: "string option"
  lr_found :: "spaceEntry option"

text \<open>
  \<^verbatim>\<open>if (headEnt.error)\<close>: an optional string is truthy when it is defined and not empty;
  \<open>truthy\<close> gives the string in that case.
\<close>

definition truthy :: "string option \<Rightarrow> string option" where
  "truthy x = (case x of None \<Rightarrow> None | Some s \<Rightarrow> if s = [] then None else Some s)"

section \<open>View declarations\<close>

text \<open>
  A view declaration (\<^verbatim>\<open>TurtleDeclRoot\<close>) with the members it inherits: the name of the
  view it extends, its refinement clauses, its own clauses. The type \<open>'q\<close> is the type of
  a clause.
\<close>

record 'q turtleDecl =
  decl_name :: string
  turtleName :: "fieldReference option"
  refinements :: "'q list option"
  qops :: "'q list"
  decl_location :: location

text \<open>
  The state a declaration changes: the diagnostics logged and its note. What is logged
  on the declaration and on its reference goes to the one list, in the order logged.
\<close>

record declState =
  ds_log :: "string list"
  ds_note :: "annotation option"

definition logMsg :: "string \<Rightarrow> declState \<Rightarrow> declState" where
  "logMsg m st = st\<lparr>ds_log := ds_log st @ [m]\<rparr>"

text \<open>
  What a bare-reference nest registers: \<^verbatim>\<open>new QueryFieldStruct(fs, turtleDef)\<close>, whose first
  argument is the space it is registered in. The state of a registration is that space
  and the diagnostics logged on the nest.
\<close>

datatype queryFieldStruct = QueryFieldStruct turtleDef

record 'fs nestState =
  ns_space :: 'fs
  ns_log :: "string list"

text \<open>
  The collaborators of the resolver that are not among the sources, as parameters:
  the lookup \<^verbatim>\<open>getField\<close>, the refinement operator \<^verbatim>\<open>refinePipeline\<close> and \<^verbatim>\<open>appendOps\<close> of the
  declaration (the latter's \<^verbatim>\<open>opList\<close>), the struct resolver \<^verbatim>\<open>getFinalStruct\<close>,
  \<^verbatim>\<open>fs.structDef()\<close>, the constructor of \<^verbatim>\<open>StaticSpace\<close>, \<^verbatim>\<open>extendNote\<close> (from the current
  note and the extension to the new note); and for nests \<^verbatim>\<open>instanceof QuerySpace\<close>,
  \<^verbatim>\<open>fs.inputSpace()\<close>, \<^verbatim>\<open>isAtomicField\<close>, \<^verbatim>\<open>fs.newEntry(name, this, entry)\<close> and the inherited
  \<^verbatim>\<open>FieldReference.makeEntry\<close> (which may read the experiment flag). The logs hold the
  diagnostics of the code modelled here.
\<close>

record ('q, 'fs, 'sd) collaborators =
  getField :: "fieldReference \<Rightarrow> 'fs \<Rightarrow> lookupResult"
  refinePipeline :: "'q turtleDecl \<Rightarrow> 'fs \<Rightarrow> segment list \<Rightarrow> segment list"
  appendOps :: "'q turtleDecl \<Rightarrow> 'fs \<Rightarrow> segment list \<Rightarrow> segment list"
  getFinalStruct :: "'sd \<Rightarrow> segment list \<Rightarrow> 'sd"
  structDef :: "'fs \<Rightarrow> 'sd"
  StaticSpace :: "'sd \<Rightarrow> 'fs"
  extendNote :: "annotation option \<Rightarrow> annotation \<Rightarrow> annotation option"
  isQuerySpace :: "'fs \<Rightarrow> bool"
  inputSpace :: "'fs \<Rightarrow> 'fs"
  isAtomicField :: "fieldDef \<Rightarrow> bool"
  newEntry :: "string \<Rightarrow> queryFieldStruct \<Rightarrow> 'fs nestState \<Rightarrow> error + 'fs nestState"
  superMakeEntry :: "bool \<Rightarrow> fieldReference \<Rightarrow> 'fs nestState \<Rightarrow> error + 'fs nestState"

definition expectedQuery :: "fieldReference \<Rightarrow> string" where
  "expectedQuery tn = ''Expected '' @ [CHR 0x27] @ ref_toString tn @ [CHR 0x27] @ '' to be a query''"

text \<open>
  \<^verbatim>\<open>getPipeline\<close>, the branch on what the lookup found (the \<^verbatim>\<open>else if\<close> chain after the
  test of \<^verbatim>\<open>headEnt.error\<close>): the state, the base pipeline and \<^verbatim>\<open>reportWrongType\<close>.
\<close>

definition headFound ::
  "('q, 'fs, 'sd) collaborators \<Rightarrow> bool \<Rightarrow> 'q turtleDecl \<Rightarrow> fieldReference \<Rightarrow> 'fs \<Rightarrow>
   spaceEntry option \<Rightarrow> declState \<Rightarrow> declState \<times> segment list \<times> bool" where
  "headFound h scalar_lenses d tn fs found st =
     (case found of
        Some (QueryField headDef fd) \<Rightarrow>
          (let st1 = (if length (ref_list tn) > 1
                      then logMsg ''Cannot use view from join'' st else st)
           in (if isTurtle (Some headDef) then
                 (let t = turtleOf headDef;
                      newPipe = refinePipeline h d fs (td_pipeline t);
                      st2 = (case td_annotation t of
                               Some a \<Rightarrow>
                                 st1\<lparr>ds_note := extendNote h (ds_note st1) (Annotation (Some a) [])\<rparr>
                             | None \<Rightarrow> st1)
                  in (st2, newPipe, False))
               else (st1, [], True)))
      | Some (ColumnSpaceField def) \<Rightarrow>
          (if scalar_lenses \<and> fd_type def \<noteq> ''struct''
           then (let newPipe =
                       refinePipeline h d fs [Segment Reduce [RefName (refString tn)]]
                 in (st, newPipe, False))
           else (st, [], True))
      | Some (OtherSpaceField fd) \<Rightarrow> (st, [], True)
      | Some (ParamEntry p) \<Rightarrow> (st, [], True)
      | None \<Rightarrow> (st, [], True))"

text \<open>
  \<^verbatim>\<open>getPipeline\<close>, step 1 (the block under \<^verbatim>\<open>if (this.turtleName)\<close>): the state and the
  base pipeline \<^verbatim>\<open>modelPipe.pipeline\<close> it leaves.
\<close>

definition resolveBase ::
  "('q, 'fs, 'sd) collaborators \<Rightarrow> bool \<Rightarrow> 'q turtleDecl \<Rightarrow> 'fs \<Rightarrow> declState \<Rightarrow>
   declState \<times> segment list" where
  "resolveBase h scalar_lenses d fs st =
     (case turtleName d of
        None \<Rightarrow> (st, [])
      | Some tn \<Rightarrow>
          (let headEnt = getField h tn fs;
               (st1, pipe, reportWrongType) =
                 (case truthy (lr_error headEnt) of
                    Some err \<Rightarrow> (logMsg err st, [], False)
                  | None \<Rightarrow> headFound h scalar_lenses d tn fs (lr_found headEnt) st)
           in (if reportWrongType then (logMsg (expectedQuery tn) st1, pipe)
               else (st1, pipe))))"

text \<open>\<^verbatim>\<open>getPipeline\<close>, steps 2 and 3: re-scope and append the declaration's own clauses.\<close>

definition assemble ::
  "('q, 'fs, 'sd) collaborators \<Rightarrow> bool \<Rightarrow> 'q turtleDecl \<Rightarrow> 'fs \<Rightarrow> declState \<Rightarrow>
   declState \<times> segment list" where
  "assemble h scalar_lenses d fs st =
     (let (st1, base) = resolveBase h scalar_lenses d fs st;
          pipeOutFS = (if length base > 0
                       then StaticSpace h (getFinalStruct h (structDef h fs) base)
                       else fs)
      in (st1, appendOps h d pipeOutFS base))"

definition hasRefinements :: "'q turtleDecl \<Rightarrow> bool" where
  "hasRefinements d = (case refinements d of None \<Rightarrow> False | Some rs \<Rightarrow> length rs > 0)"

definition getPipeline ::
  "('q, 'fs, 'sd) collaborators \<Rightarrow> bool \<Rightarrow> 'q turtleDecl \<Rightarrow> 'fs \<Rightarrow> declState \<Rightarrow>
   declState \<times> segment list" where
  "getPipeline h scalar_lenses d fs st =
     (let (st1, appended) = assemble h scalar_lenses d fs st
      in (if hasRefinements d \<and> turtleName d = None
          then (st1, refinePipeline h d fs appended)
          else (st1, appended)))"

section \<open>Partial stages\<close>

text \<open>
  Modelled from the spec: \<^verbatim>\<open>detectAndRemovePartialStages\<close> (\<^verbatim>\<open>query-utils\<close>) is not among
  the sources. It scans the finished pipeline; a stage is partial if none of its defining
  operation kinds is present; partial stages are stripped from the output pipeline. The
  result is \<^verbatim>\<open>{hasPartials, pipeline}\<close>.
\<close>

definition isPartialSegment :: "segment \<Rightarrow> bool" where
  "isPartialSegment s = (seg_type s = Partial)"

definition detectAndRemovePartialStages :: "segment list \<Rightarrow> bool \<times> segment list" where
  "detectAndRemovePartialStages p =
     (filter isPartialSegment p \<noteq> [], filter (\<lambda>s. \<not> isPartialSegment s) p)"

definition cantDetermine :: string where
  "cantDetermine =
     ''Can'' @ [CHR 0x27] @ ''t determine view type (`group_by` / `aggregate` / `nest`, `project`, `index`)''"

text \<open>\<^verbatim>\<open>getFieldDef\<close>: the view as a \<^verbatim>\<open>TurtleDef\<close>.\<close>

definition getFieldDef ::
  "('q, 'fs, 'sd) collaborators \<Rightarrow> bool \<Rightarrow> 'q turtleDecl \<Rightarrow> 'fs \<Rightarrow> declState \<Rightarrow>
   declState \<times> turtleDef" where
  "getFieldDef h scalar_lenses d fs st =
     (let (st1, pipe) = getPipeline h scalar_lenses d fs st;
          turtle = TurtleDef (decl_name d) None pipe (ds_note st1) (Some (decl_location d));
          (hasPartials, cleanedPipeline) = detectAndRemovePartialStages pipe
      in (if hasPartials
          then (logMsg cantDetermine st1,
                TurtleDef (td_name turtle) (td_as turtle) cleanedPipeline
                  (td_annotation turtle) (td_location turtle))
          else (st1, turtle)))"

section \<open>Bare-reference nests: registration\<close>

text \<open>
  \<^verbatim>\<open>NestReference.makeEntry\<close>, the test before the synthesis: the lookup found a
  \<^verbatim>\<open>SpaceField\<close> whose \<^verbatim>\<open>fieldDef()\<close> is defined and atomic.
\<close>

definition atomicTarget ::
  "('q, 'fs, 'sd) collaborators \<Rightarrow> lookupResult \<Rightarrow> fieldDef option" where
  "atomicTarget h lookup =
     (case lr_found lookup of
        None \<Rightarrow> None
      | Some e \<Rightarrow>
          (if isSpaceField e then
             (case entry_fieldDef e of
                None \<Rightarrow> None
              | Some field \<Rightarrow> if isAtomicField h field then Some field else None)
           else None))"

text \<open>The view synthesized around an atomic field (\<^verbatim>\<open>field.as ?? field.name\<close> names it).\<close>

definition nestedFieldName :: "fieldDef \<Rightarrow> string" where
  "nestedFieldName field = (case fd_as field of Some a \<Rightarrow> a | None \<Rightarrow> fd_name field)"

definition synthesizedTurtle :: "fieldReference \<Rightarrow> fieldDef \<Rightarrow> turtleDef" where
  "synthesizedTurtle ref field =
     (let name = nestedFieldName field
      in TurtleDef name None
           [Segment Reduce
              [FieldDef \<lparr>fd_type = fd_type field, fd_name = name, fd_as = None,
                         fd_expressionType = fd_expressionType field,
                         fd_e = Some [\<lparr>fr_type = ''field'', fr_path = refString ref\<rparr>]\<rparr>]]
           None None)"

definition makeEntry ::
  "('q, 'fs, 'sd) collaborators \<Rightarrow> bool \<Rightarrow> fieldReference \<Rightarrow> 'fs nestState \<Rightarrow>
   error + 'fs nestState" where
  "makeEntry h scalar_lenses ref st =
     (let fs = ns_space st
      in if isQuerySpace h fs then
           (let lookup = getField h ref (inputSpace h fs)
            in (case atomicTarget h lookup of
                  Some field \<Rightarrow>
                    newEntry h (nestedFieldName field)
                      (QueryFieldStruct (synthesizedTurtle ref field)) st
                | None \<Rightarrow>
                    (if length (ref_list ref) > 1
                     then Inr (st\<lparr>ns_log := ns_log st @ [''Cannot nest view from join'']\<rparr>)
                     else superMakeEntry h scalar_lenses ref st)))
         else Inl (InternalError ''Unexpected namespace for nest''))"

section \<open>Numeric literals\<close>

text \<open>
  \<^verbatim>\<open>ExprNumber.constantExpression\<close>. A JavaScript number is NaN, an infinity, or a finite
  double, which is a rational. \<^verbatim>\<open>Number.isNaN\<close> and \<^verbatim>\<open>Number.isInteger\<close> are the language's:
  the second holds for a finite number equal to its floor. The conversion \<^verbatim>\<open>Number(s)\<close> of
  a string and \<^verbatim>\<open>literalExprValue\<close> (not among the sources) are parameters.
\<close>

datatype jsNumber = NaN | PosInfinity | NegInfinity | Finite rat

fun Number_isNaN :: "jsNumber \<Rightarrow> bool" where
  "Number_isNaN NaN = True"
| "Number_isNaN n = False"

fun Number_isInteger :: "jsNumber \<Rightarrow> bool" where
  "Number_isInteger (Finite q) = (of_int \<lfloor>q\<rfloor> = q)"
| "Number_isInteger n = False"

datatype numberKind = Integer | Float

record numberTypeDef =
  nt_type :: string
  numberType :: "numberKind option"

record numberLiteral =
  node :: string
  literal :: string

record literalOptions =
  lit_dataType :: numberTypeDef
  lit_value :: numberLiteral

definition constantExpression ::
  "(string \<Rightarrow> jsNumber) \<Rightarrow> (literalOptions \<Rightarrow> 'v) \<Rightarrow> string \<Rightarrow> 'v" where
  "constantExpression Number literalExprValue this_n =
     (let n = Number this_n;
          dataType = (if Number_isNaN n then \<lparr>nt_type = ''number'', numberType = None\<rparr>
                      else \<lparr>nt_type = ''number'',
                            numberType = Some (if Number_isInteger n then Integer else Float)\<rparr>)
      in literalExprValue
           \<lparr>lit_dataType = dataType,
            lit_value = \<lparr>node = ''numberLiteral'', literal = this_n\<rparr>\<rparr>)"

section \<open>A concrete environment\<close>

text \<open>
  One instance of the collaborators, for evaluating the resolver on concrete inputs.
  A space is a list of entries keyed by dotted path; a query space also has the list of
  entries declared in it. Modelled from the spec: a declaration under a name that already
  exists in the space fails with \<open>DuplicateName\<close>, otherwise the entry is added in
  declaration order; refinement and appending add the declaration's clauses to the
  pipeline, each clause as a stage of its own, so that a declaration without clauses
  leaves the pipeline as it is.
\<close>

datatype sampleSpace =
    SampleQuery "(string \<times> spaceEntry) list" "(string \<times> queryFieldStruct) list"
  | SampleStatic "(string \<times> spaceEntry) list"

fun sample_entries :: "sampleSpace \<Rightarrow> (string \<times> spaceEntry) list" where
  "sample_entries (SampleQuery inp out) = inp"
| "sample_entries (SampleStatic inp) = inp"

fun sample_isQuerySpace :: "sampleSpace \<Rightarrow> bool" where
  "sample_isQuerySpace (SampleQuery inp out) = True"
| "sample_isQuerySpace (SampleStatic inp) = False"

definition sample_getField :: "fieldReference \<Rightarrow> sampleSpace \<Rightarrow> lookupResult" where
  "sample_getField ref fs =
     (case map_of (sample_entries fs) (refString ref) of
        Some e \<Rightarrow> \<lparr>lr_error = None, lr_found = Some e\<rparr>
      | None \<Rightarrow> \<lparr>lr_error = Some (refString ref @ '' is not defined''), lr_found = None\<rparr>)"

definition sample_refinePipeline ::
  "segment turtleDecl \<Rightarrow> sampleSpace \<Rightarrow> segment list \<Rightarrow> segment list" where
  "sample_refinePipeline d fs p = p @ (case refinements d of None \<Rightarrow> [] | Some rs \<Rightarrow> rs)"

definition sample_appendOps ::
  "segment turtleDecl \<Rightarrow> sampleSpace \<Rightarrow> segment list \<Rightarrow> segment list" where
  "sample_appendOps d fs p = p @ qops d"

definition sample_isAtomicField :: "fieldDef \<Rightarrow> bool" where
  "sample_isAtomicField f =
     (fd_type f \<in> set [''string'', ''number'', ''date'', ''timestamp'', ''boolean''])"

definition sample_newEntry ::
  "string \<Rightarrow> queryFieldStruct \<Rightarrow> sampleSpace nestState \<Rightarrow> error + sampleSpace nestState" where
  "sample_newEntry name e st =
     (case ns_space st of
        SampleQuery inp out \<Rightarrow>
          (if name \<in> set (map fst out) then Inl (DuplicateName name)
           else Inr (st\<lparr>ns_space := SampleQuery inp (out @ [(name, e)])\<rparr>))
      | SampleStatic inp \<Rightarrow> Inl (InternalError ''not a dynamic space''))"

definition sampleOps :: "(segment, sampleSpace, unit) collaborators" where
  "sampleOps =
     \<lparr>getField = sample_getField,
      refinePipeline = sample_refinePipeline,
      appendOps = sample_appendOps,
      getFinalStruct = (\<lambda>sd p. sd),
      structDef = (\<lambda>fs. ()),
      StaticSpace = (\<lambda>sd. SampleStatic []),
      extendNote = (\<lambda>note ext. Some ext),
      isQuerySpace = sample_isQuerySpace,
      inputSpace = (\<lambda>fs. SampleStatic (sample_entries fs)),
      isAtomicField = sample_isAtomicField,
      newEntry = sample_newEntry,
      superMakeEntry = (\<lambda>scalar_lenses ref st. Inr st)\<rparr>"

text \<open>
  A source with the column \<^verbatim>\<open>amount\<close>, the view \<^verbatim>\<open>by_state\<close>, and, through the join
  \<^verbatim>\<open>orders\<close>, the column \<^verbatim>\<open>orders.amount\<close> and the view \<^verbatim>\<open>orders.by_state\<close>.
\<close>

definition amountDef :: fieldDef where
  "amountDef = \<lparr>fd_type = ''number'', fd_name = ''amount'', fd_as = None,
                 fd_expressionType = Some Scalar, fd_e = None\<rparr>"

definition byStateDef :: turtleDef where
  "byStateDef = TurtleDef ''by_state'' None [Segment Reduce [RefName ''state'']] None None"

definition byStateEntry :: spaceEntry where
  "byStateEntry =
     QueryField (Turtle byStateDef)
       (Some \<lparr>fd_type = ''turtle'', fd_name = ''by_state'', fd_as = None,
              fd_expressionType = None, fd_e = None\<rparr>)"

definition sampleEntries :: "(string \<times> spaceEntry) list" where
  "sampleEntries =
     [(''amount'', ColumnSpaceField amountDef),
      (''by_state'', byStateEntry),
      (''orders.amount'', ColumnSpaceField amountDef),
      (''orders.by_state'', byStateEntry)]"

definition mkRef :: "string list \<Rightarrow> string \<Rightarrow> fieldReference" where
  "mkRef segments dotted = \<lparr>ref_list = segments, refString = dotted, ref_toString = dotted\<rparr>"

definition sampleDecl ::
  "fieldReference option \<Rightarrow> segment list option \<Rightarrow> segment list \<Rightarrow> segment turtleDecl" where
  "sampleDecl tn refs ops =
     \<lparr>decl_name = ''v'', turtleName = tn, refinements = refs, qops = ops,
      decl_location = Location ''file.malloy'' 1 0\<rparr>"

definition state0 :: declState where
  "state0 = \<lparr>ds_log = [], ds_note = None\<rparr>"

definition querySpace0 :: "sampleSpace nestState" where
  "querySpace0 = \<lparr>ns_space = SampleQuery sampleEntries [], ns_log = []\<rparr>"

text \<open>
  The values of \<^verbatim>\<open>Number\<close> at the literals \<^verbatim>\<open>"3"\<close>, \<^verbatim>\<open>"3.5"\<close> and \<^verbatim>\<open>"abc"\<close>; this instance
  answers NaN everywhere else.
\<close>

definition sampleNumber :: "string \<Rightarrow> jsNumber" where
  "sampleNumber s =
     (if s = ''3'' then Finite 3 else if s = ''3.5'' then Finite (7 / 2) else NaN)"

section \<open>Properties\<close>

subsection \<open>Evaluation rules\<close>

lemmas sample_simps =
  sampleOps_def sampleDecl_def mkRef_def sample_getField_def sampleEntries_def
  byStateEntry_def byStateDef_def amountDef_def state0_def querySpace0_def truthy_def
  sample_refinePipeline_def sample_appendOps_def sample_isAtomicField_def
  sample_newEntry_def nestedFieldName_def

lemma floor_7_2: "\<lfloor>7 / 2 :: rat\<rfloor> = 3"
  by (rule floor_unique) simp_all

subsection \<open>View resolution\<close>

text \<open>
  C1 (as stated, fails). The claim: when the declaration extends a view reached through a
  join, the resolver logs "Cannot use view from join" and goes on with an empty base
  pipeline. At the view \<^verbatim>\<open>orders.by_state\<close> the diagnostic is logged and the base is the
  joined view's pipeline, not the empty one.
\<close>

theorem resolveBase_view_from_join_counterexample:
  "resolveBase sampleOps False
      (sampleDecl (Some (mkRef [''orders'', ''by_state''] ''orders.by_state'')) None [])
      (SampleStatic sampleEntries) state0
    = (\<lparr>ds_log = [''Cannot use view from join''], ds_note = None\<rparr>,
       [Segment Reduce [RefName ''state'']])
   \<and> snd (resolveBase sampleOps False
      (sampleDecl (Some (mkRef [''orders'', ''by_state''] ''orders.by_state'')) None [])
      (SampleStatic sampleEntries) state0) \<noteq> []"
  by (simp add: resolveBase_def headFound_def logMsg_def Let_def sample_simps)

text \<open>
  C1 (amended). When the declaration extends a name, the lookup succeeds with a view-field
  entry and the reference has more than one path segment, the resolver logs
  "Cannot use view from join" and goes on best-effort: when the entry's definition is a
  view, the base pipeline is the refinement of that joined view's pipeline and nothing
  else is logged; when it is not a view, "Expected ... to be a query" is logged as well
  and the base is empty.
\<close>

theorem resolveBase_view_from_join:
  assumes "turtleName d = Some tn"
    and "truthy (lr_error (getField h tn fs)) = None"
    and "lr_found (getField h tn fs) = Some (QueryField headDef fd)"
    and "length (ref_list tn) > 1"
  shows "ds_log (fst (resolveBase h scalar_lenses d fs st)) =
           ds_log st @ [''Cannot use view from join''] @
             (if isTurtle (Some headDef) then [] else [expectedQuery tn])
         \<and> snd (resolveBase h scalar_lenses d fs st) =
             (if isTurtle (Some headDef)
              then refinePipeline h d fs (td_pipeline (turtleOf headDef)) else [])"
  using assms
  by (simp add: resolveBase_def headFound_def logMsg_def Let_def split: option.splits)

theorem resolveBase_view_from_join_witness:
  "ds_log (fst (resolveBase sampleOps True
      (sampleDecl (Some (mkRef [''orders'', ''by_state''] ''orders.by_state''))
         (Some [Segment Project [RefName ''a'']]) [])
      (SampleStatic sampleEntries) state0)) = [''Cannot use view from join'']
   \<and> snd (resolveBase sampleOps True
      (sampleDecl (Some (mkRef [''orders'', ''by_state''] ''orders.by_state''))
         (Some [Segment Project [RefName ''a'']]) [])
      (SampleStatic sampleEntries) state0)
     = [Segment Reduce [RefName ''state''], Segment Project [RefName ''a'']]"
  using resolveBase_view_from_join
    [of "sampleDecl (Some (mkRef [''orders'', ''by_state''] ''orders.by_state''))
           (Some [Segment Project [RefName ''a'']]) []"
        "mkRef [''orders'', ''by_state''] ''orders.by_state''"
        sampleOps "SampleStatic sampleEntries" "Turtle byStateDef"
        "Some \<lparr>fd_type = ''turtle'', fd_name = ''by_state'', fd_as = None,
               fd_expressionType = None, fd_e = None\<rparr>" True state0]
  by (simp add: sample_simps)

text \<open>
  C5. When the extended name resolves to a plain column, the scalar-lens experiment is
  enabled and the column's type is not \<^verbatim>\<open>struct\<close>, the resolver synthesizes the one-stage
  pipeline made of a \<^verbatim>\<open>reduce\<close> stage projecting exactly that field, passes it through the
  refinement operator and goes on with the result as the base: the own clauses are
  appended to it, and no diagnostic is logged.
\<close>

theorem resolveBase_scalar_lens:
  assumes "turtleName d = Some tn"
    and "truthy (lr_error (getField h tn fs)) = None"
    and "lr_found (getField h tn fs) = Some (ColumnSpaceField def)"
    and "fd_type def \<noteq> ''struct''"
  shows "resolveBase h True d fs st =
           (st, refinePipeline h d fs [Segment Reduce [RefName (refString tn)]])
         \<and> fst (getPipeline h True d fs st) = st
         \<and> snd (getPipeline h True d fs st) =
             (let base = refinePipeline h d fs [Segment Reduce [RefName (refString tn)]]
              in appendOps h d
                   (if length base > 0
                    then StaticSpace h (getFinalStruct h (structDef h fs) base) else fs)
                   base)"
  using assms
  by (simp add: getPipeline_def assemble_def resolveBase_def headFound_def Let_def
      split: prod.splits)

theorem resolveBase_scalar_lens_witness:
  "getPipeline sampleOps True (sampleDecl (Some (mkRef [''amount''] ''amount'')) None [])
     (SampleStatic sampleEntries) state0
   = (\<lparr>ds_log = [], ds_note = None\<rparr>, [Segment Reduce [RefName ''amount'']])"
proof -
  let ?tn = "mkRef [''amount''] ''amount''"
  let ?d = "sampleDecl (Some ?tn) None []"
  let ?fs = "SampleStatic sampleEntries"
  have t: "turtleName ?d = Some ?tn" by (simp add: sampleDecl_def)
  have e: "truthy (lr_error (getField sampleOps ?tn ?fs)) = None"
    by (simp add: sample_simps)
  have f: "lr_found (getField sampleOps ?tn ?fs) = Some (ColumnSpaceField amountDef)"
    by (simp add: sample_simps)
  have s: "fd_type amountDef \<noteq> ''struct''" by (simp add: amountDef_def)
  have "fst (getPipeline sampleOps True ?d ?fs state0) = \<lparr>ds_log = [], ds_note = None\<rparr>"
    and "snd (getPipeline sampleOps True ?d ?fs state0) = [Segment Reduce [RefName ''amount'']]"
    using resolveBase_scalar_lens [OF t e f s, of state0]
    by (simp_all add: sample_simps)
  then show ?thesis by (simp add: prod_eq_iff)
qed

text \<open>
  C6. The trailing refinement pass of \<^verbatim>\<open>getPipeline\<close> is applied exactly when the
  declaration carries a non-empty list of refinement clauses and extends no named view:
  then the result is the refinement of the pipeline assembled so far, which is the own
  clauses appended to the empty base. In every other case, in particular whenever the
  declaration extends a named view, the result is the assembled pipeline, with no
  refinement pass over it.
\<close>

theorem getPipeline_trailing_refinement:
  "(refinements d = Some rs \<and> rs \<noteq> [] \<and> turtleName d = None \<longrightarrow>
      getPipeline h scalar_lenses d fs st =
        (st, refinePipeline h d fs (appendOps h d fs [])))
   \<and> (\<not> (\<exists>rs. refinements d = Some rs \<and> rs \<noteq> [] \<and> turtleName d = None) \<longrightarrow>
      getPipeline h scalar_lenses d fs st = assemble h scalar_lenses d fs st)
   \<and> (turtleName d = Some tn \<longrightarrow>
      getPipeline h scalar_lenses d fs st = assemble h scalar_lenses d fs st)
   \<and> (turtleName d = None \<longrightarrow> assemble h scalar_lenses d fs st = (st, appendOps h d fs []))"
  by (auto simp add: getPipeline_def assemble_def resolveBase_def hasRefinements_def Let_def
      split: prod.splits option.splits)

theorem getPipeline_trailing_refinement_witness:
  "getPipeline sampleOps False
      (sampleDecl None (Some [Segment Project [RefName ''a'']]) [Segment Reduce [RefName ''b'']])
      (SampleStatic sampleEntries) state0
    = (state0, [Segment Reduce [RefName ''b''], Segment Project [RefName ''a'']])
   \<and> getPipeline sampleOps False
      (sampleDecl (Some (mkRef [''by_state''] ''by_state''))
         (Some [Segment Project [RefName ''a'']]) [Segment Reduce [RefName ''b'']])
      (SampleStatic sampleEntries) state0
    = (state0, [Segment Reduce [RefName ''state''], Segment Project [RefName ''a''],
                Segment Reduce [RefName ''b'']])
   \<and> getPipeline sampleOps False (sampleDecl None None [Segment Reduce [RefName ''b'']])
      (SampleStatic sampleEntries) state0
    = (state0, [Segment Reduce [RefName ''b'']])"
  using getPipeline_trailing_refinement
    [of "sampleDecl None (Some [Segment Project [RefName ''a'']]) [Segment Reduce [RefName ''b'']]"
        "[Segment Project [RefName ''a'']]" sampleOps False "SampleStatic sampleEntries" state0]
    getPipeline_trailing_refinement
    [of "sampleDecl (Some (mkRef [''by_state''] ''by_state''))
           (Some [Segment Project [RefName ''a'']]) [Segment Reduce [RefName ''b'']]"
        _ sampleOps False "SampleStatic sampleEntries" state0 "mkRef [''by_state''] ''by_state''"]
    getPipeline_trailing_refinement
    [of "sampleDecl None None [Segment Reduce [RefName ''b'']]"
        _ sampleOps False "SampleStatic sampleEntries" state0]
  by (simp add: assemble_def resolveBase_def headFound_def Let_def sample_simps)

subsection \<open>Finalizing a view and partial stages\<close>

text \<open>
  C7. When the view is finalized as a \<^verbatim>\<open>TurtleDef\<close>: if the detection finds partial stages,
  the resolver logs "Can't determine view type (...)" and still returns the view, with the
  cleaned pipeline; if it finds none, it logs nothing more and returns the view with the
  pipeline as assembled.
\<close>

theorem getFieldDef_partial_stages:
  assumes "getPipeline h scalar_lenses d fs st = (st1, pipe)"
  shows "(fst (detectAndRemovePartialStages pipe) \<longrightarrow>
            getFieldDef h scalar_lenses d fs st =
              (logMsg cantDetermine st1,
               TurtleDef (decl_name d) None (snd (detectAndRemovePartialStages pipe))
                 (ds_note st1) (Some (decl_location d))))
         \<and> (\<not> fst (detectAndRemovePartialStages pipe) \<longrightarrow>
            getFieldDef h scalar_lenses d fs st =
              (st1, TurtleDef (decl_name d) None pipe (ds_note st1) (Some (decl_location d))))"
  using assms by (simp add: getFieldDef_def Let_def split: prod.splits)

theorem getFieldDef_partial_stages_witness:
  "getFieldDef sampleOps False
      (sampleDecl None None [Segment Partial [RefName ''x''], Segment Reduce [RefName ''b'']])
      (SampleStatic sampleEntries) state0
    = (\<lparr>ds_log = [cantDetermine], ds_note = None\<rparr>,
       TurtleDef ''v'' None [Segment Reduce [RefName ''b'']] None
         (Some (Location ''file.malloy'' 1 0)))
   \<and> getFieldDef sampleOps False (sampleDecl None None [Segment Reduce [RefName ''b'']])
      (SampleStatic sampleEntries) state0
    = (\<lparr>ds_log = [], ds_note = None\<rparr>,
       TurtleDef ''v'' None [Segment Reduce [RefName ''b'']] None
         (Some (Location ''file.malloy'' 1 0)))"
proof -
  let ?fs = "SampleStatic sampleEntries"
  let ?p = "[Segment Partial [RefName ''x''], Segment Reduce [RefName ''b'']]"
  let ?q = "[Segment Reduce [RefName ''b'']]"
  have p: "getPipeline sampleOps False (sampleDecl None None ?p) ?fs state0 = (state0, ?p)"
    by (simp add: getPipeline_def assemble_def resolveBase_def hasRefinements_def Let_def
        sample_simps)
  have q: "getPipeline sampleOps False (sampleDecl None None ?q) ?fs state0 = (state0, ?q)"
    by (simp add: getPipeline_def assemble_def resolveBase_def hasRefinements_def Let_def
        sample_simps)
  show ?thesis
    using getFieldDef_partial_stages [OF p] getFieldDef_partial_stages [OF q]
    by (simp add: detectAndRemovePartialStages_def isPartialSegment_def logMsg_def
        sampleDecl_def state0_def)
qed

text \<open>
  C8. Stripping partial stages is idempotent: stripping a stripped pipeline gives the
  stripped pipeline, in which no partial stage is detected any more; and a pipeline in
  which no partial stage is detected is returned unchanged.
\<close>

theorem strip_idempotent:
  "snd (detectAndRemovePartialStages (snd (detectAndRemovePartialStages p))) =
     snd (detectAndRemovePartialStages p)
   \<and> \<not> fst (detectAndRemovePartialStages (snd (detectAndRemovePartialStages p)))
   \<and> (\<not> fst (detectAndRemovePartialStages p) \<longrightarrow> snd (detectAndRemovePartialStages p) = p)"
proof (intro conjI)
  show "snd (detectAndRemovePartialStages (snd (detectAndRemovePartialStages p))) =
     snd (detectAndRemovePartialStages p)"
    by (simp add: detectAndRemovePartialStages_def)
next
  have "filter isPartialSegment (filter (\<lambda>s. \<not> isPartialSegment s) p) = []"
    by (induction p) simp_all
  then show "\<not> fst (detectAndRemovePartialStages (snd (detectAndRemovePartialStages p)))"
    by (simp add: detectAndRemovePartialStages_def)
next
  show "\<not> fst (detectAndRemovePartialStages p) \<longrightarrow> snd (detectAndRemovePartialStages p) = p"
    by (simp add: detectAndRemovePartialStages_def filter_empty_conv filter_id_conv)
qed

theorem strip_idempotent_witness:
  "snd (detectAndRemovePartialStages
          (snd (detectAndRemovePartialStages
                  [Segment Partial [RefName ''x''], Segment Reduce [RefName ''b'']])))
     = [Segment Reduce [RefName ''b'']]
   \<and> \<not> fst (detectAndRemovePartialStages [Segment Reduce [RefName ''b''], Segment Index []])
   \<and> snd (detectAndRemovePartialStages [Segment Reduce [RefName ''b''], Segment Index []])
     = [Segment Reduce [RefName ''b''], Segment Index []]"
  using strip_idempotent [of "[Segment Partial [RefName ''x''], Segment Reduce [RefName ''b'']]"]
    strip_idempotent [of "[Segment Reduce [RefName ''b''], Segment Index []]"]
  by (simp add: detectAndRemovePartialStages_def isPartialSegment_def)

subsection \<open>Bare-reference nests\<close>

text \<open>
  C2 (as stated, fails). The claim: an aggregate-classified descriptor that is not a
  turtle gets the aggregate diagnostic whether or not the scalar-lens experiment is
  active. With the experiment active the check returns before it classifies, and nothing
  is logged.
\<close>

theorem typecheck_aggregate_counterexample:
  "typecheck True \<lparr>dataType = ''number'', expressionType = Aggregate\<rparr> = Inr []
   \<and> typecheck True \<lparr>dataType = ''number'', expressionType = Aggregate\<rparr>
       \<noteq> Inr [nestMessage ''an aggregate'' ''an aggregate'']"
  by (simp add: typecheck_def expressionIsAnalytic_def)

text \<open>
  C2 (amended). For every descriptor passed to the type check of a bare-reference nest:
  a descriptor with data type \<^verbatim>\<open>turtle\<close> is never rejected; an aggregate-classified
  descriptor that is not a turtle gets the aggregate diagnostic when scalar-lens is off
  and is accepted silently when it is on; a scalar-classified descriptor that is not a
  turtle gets the group_by/select diagnostic when scalar-lens is off and is accepted
  silently when it is on.
\<close>

theorem typecheck_nest_reference:
  "(dataType t = ''turtle'' \<longrightarrow> typecheck scalar_lenses t = Inr [])
   \<and> (dataType t \<noteq> ''turtle'' \<and> expressionIsAggregate (expressionType t) \<longrightarrow>
        typecheck False t = Inr [nestMessage ''an aggregate'' ''an aggregate'']
        \<and> typecheck True t = Inr [])
   \<and> (dataType t \<noteq> ''turtle'' \<and> expressionIsScalar (expressionType t) \<longrightarrow>
        typecheck False t = Inr [nestMessage ''a scalar'' ''a group_by or select'']
        \<and> typecheck True t = Inr [])"
  by (simp add: typecheck_def expressionIsAggregate_def expressionIsScalar_def
      expressionIsAnalytic_def)

theorem typecheck_nest_reference_witness:
  "typecheck True \<lparr>dataType = ''turtle'', expressionType = Scalar\<rparr> = Inr []
   \<and> typecheck False \<lparr>dataType = ''number'', expressionType = Aggregate\<rparr> =
       Inr [''Cannot use an aggregate field in a nest operation, did you mean to use an aggregate operation instead?'']
   \<and> typecheck True \<lparr>dataType = ''number'', expressionType = Aggregate\<rparr> = Inr []
   \<and> typecheck False \<lparr>dataType = ''number'', expressionType = Scalar\<rparr> =
       Inr [''Cannot use a scalar field in a nest operation, did you mean to use a group_by or select operation instead?'']
   \<and> typecheck True \<lparr>dataType = ''number'', expressionType = Scalar\<rparr> = Inr []"
  using typecheck_nest_reference [of "\<lparr>dataType = ''turtle'', expressionType = Scalar\<rparr>" True]
    typecheck_nest_reference [of "\<lparr>dataType = ''number'', expressionType = Aggregate\<rparr>"]
    typecheck_nest_reference [of "\<lparr>dataType = ''number'', expressionType = Scalar\<rparr>"]
  by (simp add: expressionIsAggregate_def expressionIsScalar_def nestMessage_def)

text \<open>
  What the check does on an analytic-classified descriptor that is not a turtle: the two
  parts of the message are assigned and no diagnostic is logged, with either value of the
  flag.
\<close>

lemma typecheck_analytic_logs_nothing:
  "typecheck scalar_lenses \<lparr>dataType = ''number'', expressionType = Analytic\<rparr> = Inr []"
  by (simp add: typecheck_def expressionIsAnalytic_def)

text \<open>
  C3 (as stated, fails). The claim: registering a bare-reference nest whose reference has
  more than one segment always yields "Cannot nest view from join". At
  \<^verbatim>\<open>orders.amount\<close>, a column reached through a join, the atomic-field synthesis comes
  first: the view is registered and nothing is logged.
\<close>

theorem makeEntry_nest_from_join_counterexample:
  "makeEntry sampleOps False (mkRef [''orders'', ''amount''] ''orders.amount'') querySpace0
    = Inr \<lparr>ns_space = SampleQuery sampleEntries
              [(''amount'', QueryFieldStruct (TurtleDef ''amount'' None
                  [Segment Reduce
                     [FieldDef \<lparr>fd_type = ''number'', fd_name = ''amount'', fd_as = None,
                                fd_expressionType = Some Scalar,
                                fd_e = Some [\<lparr>fr_type = ''field'', fr_path = ''orders.amount''\<rparr>]\<rparr>]]
                  None None))],
            ns_log = []\<rparr>"
  by (simp add: makeEntry_def atomicTarget_def synthesizedTurtle_def Let_def sample_simps)

text \<open>
  C3 (amended). For every bare-reference nest declared in a query space whose reference
  has more than one segment and does not resolve in the input space to an atomic field,
  registering it logs "Cannot nest view from join" and registers nothing, with either
  value of the scalar-lens flag.
\<close>

theorem makeEntry_nest_from_join:
  assumes "isQuerySpace h (ns_space st)"
    and "length (ref_list ref) > 1"
    and "atomicTarget h (getField h ref (inputSpace h (ns_space st))) = None"
  shows "makeEntry h scalar_lenses ref st =
           Inr (st\<lparr>ns_log := ns_log st @ [''Cannot nest view from join'']\<rparr>)"
  using assms by (simp add: makeEntry_def Let_def)

theorem makeEntry_nest_from_join_witness:
  "makeEntry sampleOps True (mkRef [''orders'', ''by_state''] ''orders.by_state'') querySpace0
     = Inr \<lparr>ns_space = SampleQuery sampleEntries [], ns_log = [''Cannot nest view from join'']\<rparr>
   \<and> makeEntry sampleOps False (mkRef [''orders'', ''by_state''] ''orders.by_state'') querySpace0
     = Inr \<lparr>ns_space = SampleQuery sampleEntries [], ns_log = [''Cannot nest view from join'']\<rparr>"
proof -
  let ?ref = "mkRef [''orders'', ''by_state''] ''orders.by_state''"
  have q: "isQuerySpace sampleOps (ns_space querySpace0)"
    by (simp add: sample_simps)
  have l: "length (ref_list ?ref) > 1"
    by (simp add: mkRef_def)
  have a: "atomicTarget sampleOps
             (getField sampleOps ?ref (inputSpace sampleOps (ns_space querySpace0))) = None"
    by (simp add: atomicTarget_def sample_simps)
  show ?thesis
    using makeEntry_nest_from_join [OF q l a, of True]
      makeEntry_nest_from_join [OF q l a, of False]
    by (simp add: querySpace0_def)
qed

text \<open>
  C4. For every bare-reference nest declared in a query space whose reference resolves in
  the input space to an atomic field, registering it calls \<^verbatim>\<open>newEntry\<close> with a synthesized
  view whose pipeline is exactly one \<^verbatim>\<open>reduce\<close> stage holding just that field, under the
  name \<^verbatim>\<open>as ?? name\<close>; the scalar-lens flag plays no part.
\<close>

theorem makeEntry_atomic_field:
  assumes "isQuerySpace h (ns_space st)"
    and "lr_found (getField h ref (inputSpace h (ns_space st))) = Some e"
    and "isSpaceField e"
    and "entry_fieldDef e = Some field"
    and "isAtomicField h field"
  shows "makeEntry h scalar_lenses ref st =
           newEntry h (nestedFieldName field)
             (QueryFieldStruct
                (TurtleDef (nestedFieldName field) None
                   [Segment Reduce
                      [FieldDef \<lparr>fd_type = fd_type field, fd_name = nestedFieldName field,
                                 fd_as = None, fd_expressionType = fd_expressionType field,
                                 fd_e = Some [\<lparr>fr_type = ''field'', fr_path = refString ref\<rparr>]\<rparr>]]
                   None None)) st"
  using assms by (simp add: makeEntry_def atomicTarget_def synthesizedTurtle_def Let_def)

theorem makeEntry_atomic_field_witness:
  "makeEntry sampleOps False (mkRef [''amount''] ''amount'') querySpace0
    = Inr \<lparr>ns_space = SampleQuery sampleEntries
              [(''amount'', QueryFieldStruct (TurtleDef ''amount'' None
                  [Segment Reduce
                     [FieldDef \<lparr>fd_type = ''number'', fd_name = ''amount'', fd_as = None,
                                fd_expressionType = Some Scalar,
                                fd_e = Some [\<lparr>fr_type = ''field'', fr_path = ''amount''\<rparr>]\<rparr>]]
                  None None))],
            ns_log = []\<rparr>"
proof -
  let ?ref = "mkRef [''amount''] ''amount''"
  have q: "isQuerySpace sampleOps (ns_space querySpace0)"
    by (simp add: sample_simps)
  have f: "lr_found (getField sampleOps ?ref (inputSpace sampleOps (ns_space querySpace0)))
            = Some (ColumnSpaceField amountDef)"
    by (simp add: sample_simps)
  have s: "isSpaceField (ColumnSpaceField amountDef)" by simp
  have d: "entry_fieldDef (ColumnSpaceField amountDef) = Some amountDef" by simp
  have a: "isAtomicField sampleOps amountDef" by (simp add: sample_simps)
  show ?thesis
    using makeEntry_atomic_field [OF q f s d a, of False]
    by (simp add: sample_simps)
qed

subsection \<open>Numeric literals\<close>

text \<open>
  C9. For every literal string \<open>n\<close>, the classification converts \<open>n\<close> with \<^verbatim>\<open>Number\<close>: if
  the result is NaN the data type is \<^verbatim>\<open>number\<close> with no sub-kind, and a value is returned
  (nothing is raised); otherwise the sub-kind is \<^verbatim>\<open>integer\<close> when the number is finite and
  equal to its floor (it has no fractional part) and \<^verbatim>\<open>float\<close> when it is not, which
  includes the two infinities. With the values \<^verbatim>\<open>Number\<close> has at \<^verbatim>\<open>"3"\<close>, \<^verbatim>\<open>"3.5"\<close> and \<^verbatim>\<open>"abc"\<close>,
  these classify as integer, float and plain number.
\<close>

theorem constantExpression_classification:
  "(Number n = NaN \<longrightarrow>
      constantExpression Number lev n =
        lev \<lparr>lit_dataType = \<lparr>nt_type = ''number'', numberType = None\<rparr>,
             lit_value = \<lparr>node = ''numberLiteral'', literal = n\<rparr>\<rparr>)
   \<and> (Number n = Finite q \<longrightarrow>
      constantExpression Number lev n =
        lev \<lparr>lit_dataType = \<lparr>nt_type = ''number'',
               numberType = Some (if of_int \<lfloor>q\<rfloor> = q then Integer else Float)\<rparr>,
             lit_value = \<lparr>node = ''numberLiteral'', literal = n\<rparr>\<rparr>)
   \<and> (Number n = PosInfinity \<or> Number n = NegInfinity \<longrightarrow>
      constantExpression Number lev n =
        lev \<lparr>lit_dataType = \<lparr>nt_type = ''number'', numberType = Some Float\<rparr>,
             lit_value = \<lparr>node = ''numberLiteral'', literal = n\<rparr>\<rparr>)
   \<and> (Number ''3'' = Finite 3 \<longrightarrow>
        lit_dataType (constantExpression Number id ''3'') =
          \<lparr>nt_type = ''number'', numberType = Some Integer\<rparr>)
   \<and> (Number ''3.5'' = Finite (7 / 2) \<longrightarrow>
        lit_dataType (constantExpression Number id ''3.5'') =
          \<lparr>nt_type = ''number'', numberType = Some Float\<rparr>)
   \<and> (Number ''abc'' = NaN \<longrightarrow>
        lit_dataType (constantExpression Number id ''abc'') =
          \<lparr>nt_type = ''number'', numberType = None\<rparr>)"
proof (intro conjI impI)
  assume "Number n = NaN"
  then show "constantExpression Number lev n =
        lev \<lparr>lit_dataType = \<lparr>nt_type = ''number'', numberType = None\<rparr>,
             lit_value = \<lparr>node = ''numberLiteral'', literal = n\<rparr>\<rparr>"
    by (simp add: constantExpression_def)
next
  assume "Number n = Finite q"
  then show "constantExpression Number lev n =
        lev \<lparr>lit_dataType = \<lparr>nt_type = ''number'',
               numberType = Some (if of_int \<lfloor>q\<rfloor> = q then Integer else Float)\<rparr>,
             lit_value = \<lparr>node = ''numberLiteral'', literal = n\<rparr>\<rparr>"
    by (simp add: constantExpression_def Let_def)
next
  assume "Number n = PosInfinity \<or> Number n = NegInfinity"
  then show "constantExpression Number lev n =
        lev \<lparr>lit_dataType = \<lparr>nt_type = ''number'', numberType = Some Float\<rparr>,
             lit_value = \<lparr>node = ''numberLiteral'', literal = n\<rparr>\<rparr>"
    by (auto simp add: constantExpression_def Let_def)
next
  assume "Number ''3'' = Finite 3"
  then show "lit_dataType (constantExpression Number id ''3'') =
          \<lparr>nt_type = ''number'', numberType = Some Integer\<rparr>"
    by (simp add: constantExpression_def)
next
  assume "Number ''3.5'' = Finite (7 / 2)"
  then show "lit_dataType (constantExpression Number id ''3.5'') =
          \<lparr>nt_type = ''number'', numberType = Some Float\<rparr>"
    by (simp add: constantExpression_def floor_7_2)
next
  assume "Number ''abc'' = NaN"
  then show "lit_dataType (constantExpression Number id ''abc'') =
          \<lparr>nt_type = ''number'', numberType = None\<rparr>"
    by (simp add: constantExpression_def)
qed

theorem constantExpression_classification_witness:
  "lit_dataType (constantExpression sampleNumber id ''3'') =
     \<lparr>nt_type = ''number'', numberType = Some Integer\<rparr>
   \<and> lit_dataType (constantExpression sampleNumber id ''3.5'') =
     \<lparr>nt_type = ''number'', numberType = Some Float\<rparr>
   \<and> constantExpression sampleNumber id ''abc'' =
     \<lparr>lit_dataType = \<lparr>nt_type = ''number'', numberType = None\<rparr>,
      lit_value = \<lparr>node = ''numberLiteral'', literal = ''abc''\<rparr>\<rparr>
   \<and> constantExpression sampleNumber id ''3'' =
     \<lparr>lit_dataType = \<lparr>nt_type = ''number'', numberType = Some Integer\<rparr>,
      lit_value = \<lparr>node = ''numberLiteral'', literal = ''3''\<rparr>\<rparr>"
  using constantExpression_classification [of sampleNumber "''abc''" id 3]
    constantExpression_classification [of sampleNumber "''3''" id 3]
  by (simp add: sampleNumber_def)

subsection \<open>Parameters\<close>

text \<open>
  C10. Every parameter space entry, abstract or defined, reports a type descriptor whose
  expression type is scalar, whatever data type the parameter declares; it is never
  aggregate and never analytic.
\<close>

theorem typeDesc_always_scalar:
  "expressionType (spaceParam_typeDesc p) = Scalar
   \<and> \<not> expressionIsAggregate (expressionType (spaceParam_typeDesc p))
   \<and> \<not> expressionIsAnalytic (expressionType (spaceParam_typeDesc p))"
  by (cases p) (simp_all add: expressionIsAggregate_def expressionIsAnalytic_def)

end
